theory Spec2Isabelle
  imports Complex_Main
begin

section \<open>SplineParsedMaterial: the data model\<close>

text \<open>
  The embedding follows \<^verbatim>\<open>src/SplineParsedMaterial.h\<close> and
  \<^verbatim>\<open>src/SplineParsedMaterial.C\<close>. \<^verbatim>\<open>Real\<close> (a C++ double) is
  modelled by the mathematical reals: comparisons, \<^verbatim>\<open>std::max\<close> and
  \<^verbatim>\<open>std::min\<close> are those of \<^typ>\<open>real\<close>, so NaN and rounding are outside the
  model. \<^verbatim>\<open>size_t\<close> indices and \<^verbatim>\<open>unsigned int order\<close> are
  \<^typ>\<open>nat\<close>: the code only compares them and adds one below the vector's size.
\<close>

text \<open>
  How a construction can end without an object. The three \<^verbatim>\<open>paramError\<close> calls of
  the constructor are named as the specification names them:
  \<^item> \<open>LengthMismatch\<close>: \<^verbatim>\<open>paramError("y", "x and y arrays must have the same size")\<close>;
  \<^item> \<open>InsufficientPoints\<close>:
    \<^verbatim>\<open>paramError("x", "At least two data points are required for spline interpolation")\<close>;
  \<^item> \<open>NotStrictlyIncreasing\<close>: \<^verbatim>\<open>paramError("x", "x values must be strictly increasing")\<close>.

  \<open>EmptyVectorAccess\<close> is not a \<^verbatim>\<open>paramError\<close>: it stands for
  \<^verbatim>\<open>_x_values.front()\<close> (and \<^verbatim>\<open>back()\<close>) called on an empty
  \<^verbatim>\<open>std::vector\<close>, which has no defined behaviour in C++.
\<close>

datatype construction_error =
    EmptyVectorAccess
  | LengthMismatch
  | InsufficientPoints
  | NotStrictlyIncreasing

text \<open>
  The parameters the constructor reads with \<^verbatim>\<open>getParam\<close> (declared in
  \<^verbatim>\<open>validParams\<close>). \<open>p_coupled_variables\<close> is what
  \<^verbatim>\<open>coupledName("coupled_variables", 0)\<close> returns, the name of the first coupled
  variable. \<^verbatim>\<open>enable_jit\<close> is declared and never read.
\<close>

record InputParameters =
  p_x :: "real list"
  p_y :: "real list"
  p_yp1 :: real
  p_ypn :: real
  p_spline_variable :: string
  p_coupled_variables :: string
  p_property_name :: string
  p_derivative_order :: nat

text \<open>
  \<^verbatim>\<open>SplineInterpolation\<close> is a class of the MOOSE framework
  (\<^verbatim>\<open>#include "SplineInterpolation.h"\<close>); its code is not part of this repository.
  An object of the class, once \<^verbatim>\<open>setData\<close> has run, is taken by its interface: the
  three sampling methods that \<^verbatim>\<open>computeValue\<close> and \<^verbatim>\<open>computeDerivative\<close>
  call. \<^verbatim>\<open>setData\<close> itself is a parameter of the constructor's model.
\<close>

record SplineInterpolation =
  sample :: "real \<Rightarrow> real"
  sampleDerivative :: "real \<Rightarrow> real"
  sample2ndDerivative :: "real \<Rightarrow> real"

type_synonym setData_fun =
  "real list \<Rightarrow> real list \<Rightarrow> real \<Rightarrow> real \<Rightarrow> SplineInterpolation"

text \<open>
  The members of the class (the leading underscore of the C++ names is dropped).
  \<open>dF_dc\<close> and \<open>d2F_dc2\<close> are pointers that are either \<^verbatim>\<open>nullptr\<close> or the
  declared derivative property: here \<open>True\<close> when declared. The host couplings
  \<^verbatim>\<open>_c_val\<close> and \<^verbatim>\<open>_f\<close> belong to \<^verbatim>\<open>computeQpProperties\<close> and
  are not modelled.
\<close>

record SplineParsedMaterial =
  spline :: SplineInterpolation
  x_values :: "real list"
  y_values :: "real list"
  property_name :: string
  var_name :: string
  derivative_order :: nat
  dF_dc :: bool
  d2F_dc2 :: bool
  x_min :: real
  x_max :: real

section \<open>The constructor\<close>

text \<open>
  The monotonicity loop
  \<^verbatim>\<open>for (size_t i = 1; i < _x_values.size(); ++i) if (_x_values[i] <= _x_values[i-1]) paramError(...)\<close>,
  started at index \<open>i\<close>: \<open>Some\<close> error at the first offending index, \<open>None\<close> when the
  loop runs to its end.
\<close>

function monotonicity_loop :: "real list \<Rightarrow> nat \<Rightarrow> construction_error option" where
  "monotonicity_loop xv i =
     (if i < length xv then
        (if xv ! i \<le> xv ! (i - 1) then Some NotStrictlyIncreasing
         else monotonicity_loop xv (i + 1))
      else None)"
  by pat_completeness auto
termination
  by (relation "measure (\<lambda>(xv, i). length xv - i)") auto

declare monotonicity_loop.simps [simp del]

text \<open>
  The constructor. The member initialisers run first, in the order of the members'
  declaration: \<open>x_values\<close> and \<open>y_values\<close> are copied from the parameters, then
  \<open>x_min\<close> and \<open>x_max\<close> are read with \<^verbatim>\<open>front()\<close> and \<^verbatim>\<open>back()\<close>.
  Only then does the body run its three checks, in this order: equal sizes, at least two
  points, strictly increasing abscissae. A \<^verbatim>\<open>paramError\<close> does not return, so the
  first failing check decides the error. After the checks the spline is set up with
  \<^verbatim>\<open>_spline.setData(_x_values, _y_values, yp1, ypn)\<close> and the derivative properties
  are declared according to \<open>derivative_order\<close>. The console output of the constructor
  is diagnostic only and is left out.
\<close>

definition construct :: "setData_fun \<Rightarrow> InputParameters \<Rightarrow> construction_error + SplineParsedMaterial" where
  "construct setData p =
     (case p_x p of
        [] \<Rightarrow> Inl EmptyVectorAccess
      | _ # _ \<Rightarrow>
          if length (p_x p) \<noteq> length (p_y p) then Inl LengthMismatch
          else if length (p_x p) < 2 then Inl InsufficientPoints
          else
            (case monotonicity_loop (p_x p) 1 of
               Some e \<Rightarrow> Inl e
             | None \<Rightarrow>
                 Inr \<lparr> spline = setData (p_x p) (p_y p) (p_yp1 p) (p_ypn p),
                       x_values = p_x p,
                       y_values = p_y p,
                       property_name = p_property_name p,
                       var_name = p_coupled_variables p,
                       derivative_order = p_derivative_order p,
                       dF_dc = (p_derivative_order p \<ge> 1),
                       d2F_dc2 = (p_derivative_order p \<ge> 2),
                       x_min = hd (p_x p),
                       x_max = last (p_x p) \<rparr>))"

section \<open>Evaluation\<close>

text \<open>
  \<^verbatim>\<open>computeValue\<close> owns a function-local \<^verbatim>\<open>static bool warned\<close> and may call
  \<^verbatim>\<open>mooseWarning\<close>; it also reads the host's time step \<^verbatim>\<open>_t_step\<close>. The
  static flag and the warnings emitted so far are the state that is passed through a
  call; the time step is an argument. A warning is recorded with the three numbers its
  message prints: the query and the two domain bounds.
\<close>

datatype notification = OutsideDomainWarning real real real

record eval_state =
  warned :: bool
  warnings :: "notification list"

definition computeValue ::
  "SplineParsedMaterial \<Rightarrow> int \<Rightarrow> real \<Rightarrow> eval_state \<Rightarrow> real \<times> eval_state" where
  "computeValue m t_step c s =
     (if c < x_min m \<or> c > x_max m then
        (let s' = (if \<not> warned s \<and> t_step = 0
                   then s\<lparr> warnings := warnings s @ [OutsideDomainWarning c (x_min m) (x_max m)],
                           warned := True \<rparr>
                   else s);
             c' = max (x_min m) (min (x_max m) c)
         in (sample (spline m) c', s'))
      else (sample (spline m) c, s))"

text \<open>
  \<^verbatim>\<open>computeDerivative\<close> is a \<^verbatim>\<open>const\<close> method without static data and without
  output: a function of the object, the query and the order.
\<close>

definition computeDerivative :: "SplineParsedMaterial \<Rightarrow> real \<Rightarrow> nat \<Rightarrow> real" where
  "computeDerivative m c order =
     (let c' = (if c < x_min m \<or> c > x_max m
                then max (x_min m) (min (x_max m) c) else c)
      in if order = 0 then sample (spline m) c'
         else if order = 1 then sampleDerivative (spline m) c'
         else if order = 2 then sample2ndDerivative (spline m) c'
         else 0)"

section \<open>The spline of the framework, from the specification\<close>

text \<open>
  Modelled from the spec: the class \<^verbatim>\<open>SplineInterpolation\<close> behind
  \<^verbatim>\<open>_spline\<close> (its \<^verbatim>\<open>setData\<close>, \<^verbatim>\<open>sample\<close>,
  \<^verbatim>\<open>sampleDerivative\<close> and \<^verbatim>\<open>sample2ndDerivative\<close>) is not among the
  sources. The definitions of this section follow sections 3, 4.1 and 4.2 of the
  specification: the data of a spline, the location of the interval of a query by binary
  search, and the three closed-form expressions on that interval. They are used where a
  property depends on what sampling returns, and for concrete objects.
\<close>

record SplineData =
  sd_x :: "real list"
  sd_y :: "real list"
  sd_y2 :: "real list"
  boundary_left :: real
  boundary_right :: real

text \<open>
  Modelled from the spec: interval location, "locate index \<open>i\<close> such that
  \<open>x[i] \<le> c \<le> x[i+1]\<close> using a binary search over the ordered knot sequence". The
  search keeps a bracket \<open>lo < hi\<close> of knot indices and halves it until the two are
  neighbours; a query equal to the middle knot goes to the right half.
\<close>

function bisect :: "real list \<Rightarrow> real \<Rightarrow> nat \<Rightarrow> nat \<Rightarrow> nat" where
  "bisect xv c lo hi =
     (if lo + 1 < hi then
        (let mid = (lo + hi) div 2
         in if c < xv ! mid then bisect xv c lo mid else bisect xv c mid hi)
      else lo)"
  by pat_completeness auto
termination
  by (relation "measure (\<lambda>(xv, c, lo, hi). hi - lo)") auto

declare bisect.simps [simp del]

definition locate_interval :: "real list \<Rightarrow> real \<Rightarrow> nat" where
  "locate_interval xv c = bisect xv c 0 (length xv - 1)"

text \<open>
  Modelled from the spec: the evaluation formulas of section 4.2, with \<open>h\<close> the width of
  the located interval and \<open>a\<close>, \<open>b\<close> the normalised positions of the query in it.
\<close>

definition spec_value :: "SplineData \<Rightarrow> real \<Rightarrow> real" where
  "spec_value d c =
     (let i = locate_interval (sd_x d) c;
          h = sd_x d ! (i + 1) - sd_x d ! i;
          a = (sd_x d ! (i + 1) - c) / h;
          b = (c - sd_x d ! i) / h
      in a * sd_y d ! i + b * sd_y d ! (i + 1)
         + ((a ^ 3 - a) * sd_y2 d ! i + (b ^ 3 - b) * sd_y2 d ! (i + 1)) * h ^ 2 / 6)"

definition spec_firstDerivative :: "SplineData \<Rightarrow> real \<Rightarrow> real" where
  "spec_firstDerivative d c =
     (let i = locate_interval (sd_x d) c;
          h = sd_x d ! (i + 1) - sd_x d ! i;
          a = (sd_x d ! (i + 1) - c) / h;
          b = (c - sd_x d ! i) / h
      in (sd_y d ! (i + 1) - sd_y d ! i) / h
         - (3 * a ^ 2 - 1) / 6 * h * sd_y2 d ! i
         + (3 * b ^ 2 - 1) / 6 * h * sd_y2 d ! (i + 1))"

definition spec_secondDerivative :: "SplineData \<Rightarrow> real \<Rightarrow> real" where
  "spec_secondDerivative d c =
     (let i = locate_interval (sd_x d) c;
          h = sd_x d ! (i + 1) - sd_x d ! i;
          a = (sd_x d ! (i + 1) - c) / h;
          b = (c - sd_x d ! i) / h
      in a * sd_y2 d ! i + b * sd_y2 d ! (i + 1))"

text \<open>
  Modelled from the spec: \<^verbatim>\<open>setData\<close> stores the knots and the boundary slopes and
  computes the second derivatives at the knots once. The specification describes that
  tridiagonal solve in outline only, without its formulas, so the solver is a parameter:
  it maps the knots and the two boundary slopes to the list \<open>y2\<close>.
\<close>

type_synonym y2_solver = "real list \<Rightarrow> real list \<Rightarrow> real \<Rightarrow> real \<Rightarrow> real list"

definition spec_setData :: "y2_solver \<Rightarrow> setData_fun" where
  "spec_setData solve xv yv yp1 ypn =
     (let d = \<lparr> sd_x = xv, sd_y = yv, sd_y2 = solve xv yv yp1 ypn,
                boundary_left = yp1, boundary_right = ypn \<rparr>
      in \<lparr> sample = spec_value d,
           sampleDerivative = spec_firstDerivative d,
           sample2ndDerivative = spec_secondDerivative d \<rparr>)"

section \<open>A concrete object\<close>

text \<open>
  The test data of section 8 of the specification: five knots \<open>0, 1, 2, 3, 4\<close> with
  ordinates \<open>0, 1, 0, 1, 0\<close> and natural boundaries (both slopes at the sentinel
  \<open>1e30\<close>). The second derivatives of the natural spline through these knots are
  \<open>0, -30/7, 36/7, -30/7, 0\<close>: with unit spacing they solve
  \<open>y2[i-1] + 4 y2[i] + y2[i+1] = 6 (y[i-1] - 2 y[i] + y[i+1])\<close> at the three interior
  knots with \<open>y2[0] = y2[4] = 0\<close>.
\<close>

definition example_y2 :: "real list" where
  "example_y2 = [0, - 30 / 7, 36 / 7, - 30 / 7, 0]"

definition example_setData :: setData_fun where
  "example_setData = spec_setData (\<lambda>xv yv yp1 ypn. example_y2)"

definition example_params :: InputParameters where
  "example_params =
     \<lparr> p_x = [0, 1, 2, 3, 4], p_y = [0, 1, 0, 1, 0],
       p_yp1 = 10 ^ 30, p_ypn = 10 ^ 30,
       p_spline_variable = ''c'', p_coupled_variables = ''c'',
       p_property_name = ''F'', p_derivative_order = 2 \<rparr>"

definition example_material :: SplineParsedMaterial where
  "example_material =
     \<lparr> spline = example_setData [0, 1, 2, 3, 4] [0, 1, 0, 1, 0] (10 ^ 30) (10 ^ 30),
       x_values = [0, 1, 2, 3, 4], y_values = [0, 1, 0, 1, 0],
       property_name = ''F'', var_name = ''c'', derivative_order = 2,
       dF_dc = True, d2F_dc2 = True, x_min = 0, x_max = 4 \<rparr>"

definition initial_state :: eval_state where
  "initial_state = \<lparr> warned = False, warnings = [] \<rparr>"

section \<open>The validation loop and the domain of a constructed object\<close>

lemma monotonicity_loop_None_iff:
  "monotonicity_loop xv i = None \<longleftrightarrow> (\<forall>j. i \<le> j \<and> j < length xv \<longrightarrow> xv ! (j - 1) < xv ! j)"
proof (induction xv i rule: monotonicity_loop.induct)
  case (1 xv i)
  show ?case
  proof (cases "i < length xv")
    case False
    then show ?thesis by (simp add: monotonicity_loop.simps [of xv i])
  next
    case inside: True
    show ?thesis
    proof (cases "xv ! i \<le> xv ! (i - 1)")
      case True
      with inside show ?thesis
        by (auto simp: monotonicity_loop.simps [of xv i] intro!: exI [of _ i])
    next
      case False
      with inside have "monotonicity_loop xv i = monotonicity_loop xv (i + 1)"
        by (simp add: monotonicity_loop.simps [of xv i])
      also have "\<dots> = None \<longleftrightarrow> (\<forall>j. i + 1 \<le> j \<and> j < length xv \<longrightarrow> xv ! (j - 1) < xv ! j)"
        using "1.IH" inside False by simp
      also have "\<dots> \<longleftrightarrow> (\<forall>j. i \<le> j \<and> j < length xv \<longrightarrow> xv ! (j - 1) < xv ! j)"
      proof
        assume h: "\<forall>j. i + 1 \<le> j \<and> j < length xv \<longrightarrow> xv ! (j - 1) < xv ! j"
        show "\<forall>j. i \<le> j \<and> j < length xv \<longrightarrow> xv ! (j - 1) < xv ! j"
        proof (intro allI impI)
          fix j assume j: "i \<le> j \<and> j < length xv"
          show "xv ! (j - 1) < xv ! j"
          proof (cases "j = i")
            case True
            with False show ?thesis by simp
          next
            case False
            with j h show ?thesis by simp
          qed
        qed
      next
        assume "\<forall>j. i \<le> j \<and> j < length xv \<longrightarrow> xv ! (j - 1) < xv ! j"
        then show "\<forall>j. i + 1 \<le> j \<and> j < length xv \<longrightarrow> xv ! (j - 1) < xv ! j"
          by simp
      qed
      finally show ?thesis .
    qed
  qed
qed

lemma monotonicity_loop_Some:
  "monotonicity_loop xv i = Some e \<Longrightarrow> e = NotStrictlyIncreasing"
proof (induction xv i rule: monotonicity_loop.induct)
  case (1 xv i)
  then show ?case
    by (subst (asm) (2) monotonicity_loop.simps) (auto split: if_splits)
qed

lemma monotonicity_loop_sorted:
  "monotonicity_loop xv 1 = None \<longleftrightarrow> sorted_wrt (<) xv"
proof -
  have "(\<forall>j. 1 \<le> j \<and> j < length xv \<longrightarrow> xv ! (j - 1) < xv ! j)
        \<longleftrightarrow> (\<forall>k. Suc k < length xv \<longrightarrow> xv ! k < xv ! Suc k)"
  proof
    assume h: "\<forall>j. 1 \<le> j \<and> j < length xv \<longrightarrow> xv ! (j - 1) < xv ! j"
    show "\<forall>k. Suc k < length xv \<longrightarrow> xv ! k < xv ! Suc k"
    proof (intro allI impI)
      fix k assume "Suc k < length xv"
      with h [rule_format, of "Suc k"] show "xv ! k < xv ! Suc k" by simp
    qed
  next
    assume h: "\<forall>k. Suc k < length xv \<longrightarrow> xv ! k < xv ! Suc k"
    show "\<forall>j. 1 \<le> j \<and> j < length xv \<longrightarrow> xv ! (j - 1) < xv ! j"
    proof (intro allI impI)
      fix j assume "1 \<le> j \<and> j < length xv"
      with h [rule_format, of "j - 1"] show "xv ! (j - 1) < xv ! j" by simp
    qed
  qed
  then show ?thesis
    by (simp add: monotonicity_loop_None_iff sorted_wrt_iff_nth_Suc_transp)
qed

lemma construct_Inr_iff:
  "construct setData p = Inr m \<longleftrightarrow>
     length (p_x p) = length (p_y p) \<and> 2 \<le> length (p_x p) \<and> sorted_wrt (<) (p_x p) \<and>
     m = \<lparr> spline = setData (p_x p) (p_y p) (p_yp1 p) (p_ypn p),
           x_values = p_x p, y_values = p_y p,
           property_name = p_property_name p, var_name = p_coupled_variables p,
           derivative_order = p_derivative_order p,
           dF_dc = (p_derivative_order p \<ge> 1), d2F_dc2 = (p_derivative_order p \<ge> 2),
           x_min = hd (p_x p), x_max = last (p_x p) \<rparr>"
proof (cases "p_x p")
  case Nil
  then show ?thesis by (simp add: construct_def)
next
  case (Cons a as)
  show ?thesis
  proof (cases "monotonicity_loop (p_x p) 1")
    case None
    with Cons show ?thesis
      using monotonicity_loop_sorted [of "p_x p"]
      by (auto simp: construct_def simp del: sorted_wrt.simps)
  next
    case (Some e)
    with Cons show ?thesis
      using monotonicity_loop_sorted [of "p_x p"]
      by (auto simp: construct_def simp del: sorted_wrt.simps)
  qed
qed

lemma strictly_increasing_ends:
  assumes "sorted_wrt (<) (xv :: real list)" and "2 \<le> length xv"
  shows "hd xv < last xv"
proof -
  from assms(2) have ne: "xv \<noteq> []" by auto
  have "xv ! 0 < xv ! (length xv - 1)"
    using sorted_wrt_nth_less [OF assms(1), of 0 "length xv - 1"] assms(2) by simp
  with ne show ?thesis by (simp add: hd_conv_nth last_conv_nth)
qed

lemma construct_domain:
  assumes "construct setData p = Inr m"
  shows "x_min m < x_max m"
  using assms strictly_increasing_ends [of "p_x p"]
  by (auto simp: construct_Inr_iff)

section \<open>Sampling the modelled spline at a knot\<close>

lemma bisect_bracket:
  "lo < hi \<Longrightarrow> xv ! lo \<le> c \<Longrightarrow> c \<le> xv ! hi \<Longrightarrow>
   lo \<le> bisect xv c lo hi \<and> bisect xv c lo hi + 1 \<le> hi \<and>
   xv ! bisect xv c lo hi \<le> c \<and> c \<le> xv ! (bisect xv c lo hi + 1)"
proof (induction xv c lo hi rule: bisect.induct)
  case (1 xv c lo hi)
  show ?case
  proof (cases "lo + 1 < hi")
    case False
    with "1.prems" have hi: "hi = lo + 1" by simp
    from False have "bisect xv c lo hi = lo"
      by (simp add: bisect.simps [of xv c lo hi])
    with "1.prems" hi show ?thesis by simp
  next
    case wide: True
    define mid where "mid = (lo + hi) div 2"
    from wide have mid: "lo < mid" "mid < hi" by (simp_all add: mid_def)
    show ?thesis
    proof (cases "c < xv ! mid")
      case True
      have eq: "bisect xv c lo hi = bisect xv c lo mid"
        using wide True by (simp add: bisect.simps [of xv c lo hi] mid_def Let_def)
      have "lo \<le> bisect xv c lo mid \<and> bisect xv c lo mid + 1 \<le> mid \<and>
            xv ! bisect xv c lo mid \<le> c \<and> c \<le> xv ! (bisect xv c lo mid + 1)"
        using "1.IH"(1) [OF wide mid_def True] mid "1.prems" True by simp
      with eq mid show ?thesis by simp
    next
      case False
      have eq: "bisect xv c lo hi = bisect xv c mid hi"
        using wide False by (simp add: bisect.simps [of xv c lo hi] mid_def Let_def)
      have "mid \<le> bisect xv c mid hi \<and> bisect xv c mid hi + 1 \<le> hi \<and>
            xv ! bisect xv c mid hi \<le> c \<and> c \<le> xv ! (bisect xv c mid hi + 1)"
        using "1.IH"(2) [OF wide mid_def False] mid "1.prems" False by simp
      with eq mid show ?thesis by simp
    qed
  qed
qed

lemma locate_interval_bracket:
  assumes "2 \<le> length xv" and "xv ! 0 \<le> c" and "c \<le> xv ! (length xv - 1)"
  shows "locate_interval xv c + 1 < length xv \<and>
         xv ! locate_interval xv c \<le> c \<and> c \<le> xv ! (locate_interval xv c + 1)"
proof -
  from assms(1) have "0 < length xv - 1" by simp
  from bisect_bracket [OF this assms(2) assms(3)]
  have "bisect xv c 0 (length xv - 1) + 1 \<le> length xv - 1"
    and "xv ! bisect xv c 0 (length xv - 1) \<le> c"
    and "c \<le> xv ! (bisect xv c 0 (length xv - 1) + 1)"
    by simp_all
  with assms(1) show ?thesis
    unfolding locate_interval_def by linarith
qed

lemma spec_value_at_knot:
  assumes sorted: "sorted_wrt (<) (sd_x d)" and len: "2 \<le> length (sd_x d)"
    and j: "j < length (sd_x d)"
  shows "spec_value d (sd_x d ! j) = sd_y d ! j"
proof -
  define xv where "xv = sd_x d"
  define i where "i = locate_interval xv (xv ! j)"
  have lo: "xv ! 0 \<le> xv ! j"
    using sorted_wrt_nth_less [OF sorted, of 0 j] j by (cases "j = 0") (auto simp: xv_def)
  have hi: "xv ! j \<le> xv ! (length xv - 1)"
  proof (cases "j = length xv - 1")
    case True
    then show ?thesis by simp
  next
    case False
    with j have "j < length xv - 1" and "length xv - 1 < length xv"
      by (simp_all add: xv_def)
    then have "xv ! j < xv ! (length xv - 1)"
      unfolding xv_def by (rule sorted_wrt_nth_less [OF sorted])
    then show ?thesis by simp
  qed
  from locate_interval_bracket [of xv "xv ! j"] len lo hi
  have i: "i + 1 < length xv" "xv ! i \<le> xv ! j" "xv ! j \<le> xv ! (i + 1)"
    by (simp_all add: i_def xv_def)
  have "\<not> j < i"
    using sorted_wrt_nth_less [OF sorted, of j i] i by (auto simp: xv_def)
  moreover have "\<not> i + 1 < j"
    using sorted_wrt_nth_less [OF sorted, of "i + 1" j] i j by (auto simp: xv_def)
  ultimately have cases: "j = i \<or> j = i + 1" by linarith
  have h: "xv ! i < xv ! (i + 1)"
    using sorted_wrt_nth_less [OF sorted, of i "i + 1"] i by (simp add: xv_def)
  define h where "h = xv ! (i + 1) - xv ! i"
  define a where "a = (xv ! (i + 1) - xv ! j) / h"
  define b where "b = (xv ! j - xv ! i) / h"
  have val: "spec_value d (sd_x d ! j) =
               a * sd_y d ! i + b * sd_y d ! (i + 1)
               + ((a ^ 3 - a) * sd_y2 d ! i + (b ^ 3 - b) * sd_y2 d ! (i + 1)) * h ^ 2 / 6"
    by (simp add: spec_value_def Let_def i_def xv_def a_def b_def h_def)
  from h have h0: "h \<noteq> 0" by (simp add: h_def)
  from cases show ?thesis
  proof
    assume ji: "j = i"
    with h0 have "a = 1" and "b = 0" by (simp_all add: a_def b_def h_def)
    with val ji show ?thesis by simp
  next
    assume ji: "j = i + 1"
    with h0 have "a = 0" and "b = 1" by (simp_all add: a_def b_def h_def)
    with val ji show ?thesis by simp
  qed
qed

section \<open>How a construction fails\<close>

text \<open>
  The outcome of a failed construction, read off the order of the constructor's steps:
  the read of the bounds, then the three checks.
\<close>

lemma construct_Inl_iff:
  "construct setData p = Inl e \<longleftrightarrow>
     (p_x p = [] \<and> e = EmptyVectorAccess) \<or>
     (p_x p \<noteq> [] \<and> length (p_x p) \<noteq> length (p_y p) \<and> e = LengthMismatch) \<or>
     (p_x p \<noteq> [] \<and> length (p_x p) = length (p_y p) \<and> length (p_x p) < 2
        \<and> e = InsufficientPoints) \<or>
     (length (p_x p) = length (p_y p) \<and> 2 \<le> length (p_x p) \<and> \<not> sorted_wrt (<) (p_x p)
        \<and> e = NotStrictlyIncreasing)"
proof (cases "p_x p")
  case Nil
  then show ?thesis by (auto simp: construct_def)
next
  case (Cons a as)
  then have ne: "p_x p \<noteq> []" by simp
  have unfold: "construct setData p =
      (if length (p_x p) \<noteq> length (p_y p) then Inl LengthMismatch
       else if length (p_x p) < 2 then Inl InsufficientPoints
       else (case monotonicity_loop (p_x p) 1 of
               Some e \<Rightarrow> Inl e
             | None \<Rightarrow>
                 Inr \<lparr> spline = setData (p_x p) (p_y p) (p_yp1 p) (p_ypn p),
                       x_values = p_x p, y_values = p_y p,
                       property_name = p_property_name p,
                       var_name = p_coupled_variables p,
                       derivative_order = p_derivative_order p,
                       dF_dc = (p_derivative_order p \<ge> 1),
                       d2F_dc2 = (p_derivative_order p \<ge> 2),
                       x_min = hd (p_x p), x_max = last (p_x p) \<rparr>))"
    unfolding construct_def by (simp add: Cons)
  show ?thesis
  proof (cases "length (p_x p) \<noteq> length (p_y p)")
    case True
    with ne show ?thesis unfolding unfold by auto
  next
    case eq: False
    show ?thesis
    proof (cases "length (p_x p) < 2")
      case True
      with ne eq show ?thesis unfolding unfold by auto
    next
      case two: False
      show ?thesis
      proof (cases "monotonicity_loop (p_x p) 1")
        case None
        then have "sorted_wrt (<) (p_x p)" by (simp only: monotonicity_loop_sorted)
        with None ne eq two show ?thesis unfolding unfold by simp
      next
        case (Some e')
        then have e': "e' = NotStrictlyIncreasing" by (rule monotonicity_loop_Some)
        from Some have "\<not> sorted_wrt (<) (p_x p)"
          using monotonicity_loop_sorted [of "p_x p"] by simp
        with Some e' ne eq two show ?thesis unfolding unfold by auto
      qed
    qed
  qed
qed

lemma construct_length_mismatch:
  "p_x p \<noteq> [] \<Longrightarrow> length (p_x p) \<noteq> length (p_y p) \<Longrightarrow> construct setData p = Inl LengthMismatch"
  by (cases "p_x p") (simp_all add: construct_def)

section \<open>The concrete object is what the constructor builds\<close>

lemma construct_example: "construct example_setData example_params = Inr example_material"
  by (simp add: construct_Inr_iff example_params_def example_material_def)

lemma example_domain: "x_min example_material = 0" "x_max example_material = 4"
  by (simp_all add: example_material_def)

lemma example_params_fields:
  "p_x example_params = [0, 1, 2, 3, 4]" "p_y example_params = [0, 1, 0, 1, 0]"
  by (simp_all add: example_params_def)

text \<open>
  The modelled spline computes: the interval of the query \<open>1/2\<close> is the first one, and
  the value there is \<open>43/56\<close>, strictly between the ordinates \<open>0\<close> and \<open>1\<close> of its
  two knots, as section 8 of the specification expects of these data.
\<close>

lemma bisect_half: "bisect [0, 1, 2, 3, 4] (1 / 2) 0 4 = 0"
  by (simp add: bisect.simps [of _ _ 0 4] bisect.simps [of _ _ 0 2] bisect.simps [of _ _ 0 "Suc 0"])

lemma locate_half: "locate_interval [0, 1, 2, 3, 4] (1 / 2) = 0"
proof -
  have "length [0, 1, 2, 3, 4 :: real] - 1 = 4" by simp
  then show ?thesis unfolding locate_interval_def by (simp only: bisect_half)
qed

lemma example_value_half:
  "computeValue example_material 0 (1 / 2) initial_state = (43 / 56, initial_state)"
  by (simp add: computeValue_def example_material_def example_setData_def spec_setData_def
        spec_value_def locate_half example_y2_def power3_eq_cube Let_def)

section \<open>Both evaluators sample at the clamped coordinate\<close>

lemma clamp_inside:
  fixes lo hi c :: real
  shows "\<not> (c < lo \<or> c > hi) \<Longrightarrow> max lo (min hi c) = c"
  by (simp add: max_def min_def)

lemma computeValue_clamped:
  "fst (computeValue m t c s) = sample (spline m) (max (x_min m) (min (x_max m) c))"
proof (cases "c < x_min m \<or> c > x_max m")
  case True
  then show ?thesis by (simp add: computeValue_def Let_def)
next
  case False
  then show ?thesis by (simp add: computeValue_def clamp_inside)
qed

lemma computeDerivative_clamped:
  "computeDerivative m c n =
     (if n = 0 then sample (spline m) (max (x_min m) (min (x_max m) c))
      else if n = 1 then sampleDerivative (spline m) (max (x_min m) (min (x_max m) c))
      else if n = 2 then sample2ndDerivative (spline m) (max (x_min m) (min (x_max m) c))
      else 0)"
proof (cases "c < x_min m \<or> c > x_max m")
  case True
  then show ?thesis by (simp add: computeDerivative_def Let_def)
next
  case False
  then show ?thesis by (simp add: computeDerivative_def clamp_inside)
qed

lemma clamp_below:
  fixes lo hi c :: real
  shows "lo \<le> hi \<Longrightarrow> c < lo \<Longrightarrow> max lo (min hi c) = lo"
  by (simp add: max_def min_def)

lemma clamp_above:
  fixes lo hi c :: real
  shows "lo \<le> hi \<Longrightarrow> hi < c \<Longrightarrow> max lo (min hi c) = hi"
  by (simp add: max_def min_def)

lemma clamp_in_domain:
  fixes lo hi c :: real
  shows "lo \<le> hi \<Longrightarrow> lo \<le> max lo (min hi c) \<and> max lo (min hi c) \<le> hi"
  by simp

lemma computeValue_no_clamp:
  "x_min m \<le> c \<Longrightarrow> c \<le> x_max m \<Longrightarrow> computeValue m t c s = (sample (spline m) c, s)"
  by (simp add: computeValue_def)

lemma knot_in_domain:
  assumes sorted: "sorted_wrt (<) (xv :: real list)" and i: "i < length xv"
  shows "hd xv \<le> xv ! i \<and> xv ! i \<le> last xv"
proof -
  from i have ne: "xv \<noteq> []" by auto
  have lo: "xv ! 0 \<le> xv ! i"
  proof (cases "i = 0")
    case True
    then show ?thesis by simp
  next
    case False
    then have "0 < i" by simp
    then have "xv ! 0 < xv ! i" using i by (rule sorted_wrt_nth_less [OF sorted])
    then show ?thesis by simp
  qed
  have hi: "xv ! i \<le> xv ! (length xv - 1)"
  proof (cases "i = length xv - 1")
    case True
    then show ?thesis by simp
  next
    case False
    with i have "i < length xv - 1" and "length xv - 1 < length xv" by simp_all
    then have "xv ! i < xv ! (length xv - 1)" by (rule sorted_wrt_nth_less [OF sorted])
    then show ?thesis by simp
  qed
  from lo hi ne show ?thesis by (simp add: hd_conv_nth last_conv_nth)
qed

section \<open>The claims\<close>

text \<open>
  Claim C1. For every constructed spline and every query coordinate \<open>c\<close> outside
  \<open>[x_min, x_max]\<close>, evaluation clamps \<open>c\<close> to the nearest domain boundary before
  sampling: the value at \<open>c\<close> is the value at \<open>x_min\<close> when \<open>c < x_min\<close> and the value at
  \<open>x_max\<close> when \<open>c > x_max\<close>, whatever the static flag and the time step of the two
  calls are; the derivative query of every order \<open>n\<close> is clamped in the same way; and
  no extrapolation happens: the value, the first and the second derivative returned for
  any \<open>c\<close> are those the spline gives at one coordinate \<open>c'\<close> inside the domain.
\<close>

theorem C1_clamping:
  assumes "construct setData p = Inr m"
  shows "(c < x_min m \<longrightarrow>
            fst (computeValue m t c s) = fst (computeValue m t' (x_min m) s') \<and>
            computeDerivative m c n = computeDerivative m (x_min m) n) \<and>
         (c > x_max m \<longrightarrow>
            fst (computeValue m t c s) = fst (computeValue m t' (x_max m) s') \<and>
            computeDerivative m c n = computeDerivative m (x_max m) n) \<and>
         (\<exists>c'. x_min m \<le> c' \<and> c' \<le> x_max m \<and>
            fst (computeValue m t c s) = sample (spline m) c' \<and>
            computeDerivative m c 1 = sampleDerivative (spline m) c' \<and>
            computeDerivative m c 2 = sample2ndDerivative (spline m) c')"
proof -
  from assms have dom: "x_min m \<le> x_max m"
    using construct_domain [of setData p m] by simp
  have at_min: "max (x_min m) (min (x_max m) (x_min m)) = x_min m"
    using dom by simp
  have at_max: "max (x_min m) (min (x_max m) (x_max m)) = x_max m"
    using dom by simp
  have 1: "c < x_min m \<longrightarrow>
            fst (computeValue m t c s) = fst (computeValue m t' (x_min m) s') \<and>
            computeDerivative m c n = computeDerivative m (x_min m) n"
  proof
    assume "c < x_min m"
    then have "max (x_min m) (min (x_max m) c) = x_min m"
      by (rule clamp_below [OF dom])
    then show "fst (computeValue m t c s) = fst (computeValue m t' (x_min m) s') \<and>
            computeDerivative m c n = computeDerivative m (x_min m) n"
      by (simp only: computeValue_clamped computeDerivative_clamped at_min)
  qed
  have 2: "c > x_max m \<longrightarrow>
            fst (computeValue m t c s) = fst (computeValue m t' (x_max m) s') \<and>
            computeDerivative m c n = computeDerivative m (x_max m) n"
  proof
    assume "c > x_max m"
    then have "max (x_min m) (min (x_max m) c) = x_max m"
      by (rule clamp_above [OF dom])
    then show "fst (computeValue m t c s) = fst (computeValue m t' (x_max m) s') \<and>
            computeDerivative m c n = computeDerivative m (x_max m) n"
      by (simp only: computeValue_clamped computeDerivative_clamped at_max)
  qed
  define c' where "c' = max (x_min m) (min (x_max m) c)"
  have "x_min m \<le> c' \<and> c' \<le> x_max m"
    unfolding c'_def by (rule clamp_in_domain [OF dom])
  moreover have "fst (computeValue m t c s) = sample (spline m) c'"
    unfolding c'_def by (rule computeValue_clamped)
  moreover have "computeDerivative m c 1 = sampleDerivative (spline m) c'"
    unfolding c'_def by (simp add: computeDerivative_clamped)
  moreover have "computeDerivative m c 2 = sample2ndDerivative (spline m) c'"
    unfolding c'_def by (simp add: computeDerivative_clamped)
  ultimately have 3: "\<exists>c'. x_min m \<le> c' \<and> c' \<le> x_max m \<and>
            fst (computeValue m t c s) = sample (spline m) c' \<and>
            computeDerivative m c 1 = sampleDerivative (spline m) c' \<and>
            computeDerivative m c 2 = sample2ndDerivative (spline m) c'"
    by blast
  from 1 2 3 show ?thesis by (intro conjI)
qed

text \<open>
  The theorem at the constructed example, queried at \<open>-1\<close> (below the domain \<open>[0, 4]\<close>)
  and at \<open>5\<close> (above it).
\<close>

theorem C1_clamping_witness:
  "construct example_setData example_params = Inr example_material \<and>
   (- 1 :: real) < x_min example_material \<and>
   fst (computeValue example_material 0 (- 1) initial_state)
     = fst (computeValue example_material 0 (x_min example_material) initial_state) \<and>
   computeDerivative example_material (- 1) 1
     = computeDerivative example_material (x_min example_material) 1 \<and>
   (5 :: real) > x_max example_material \<and>
   fst (computeValue example_material 0 5 initial_state)
     = fst (computeValue example_material 0 (x_max example_material) initial_state) \<and>
   computeDerivative example_material 5 2
     = computeDerivative example_material (x_max example_material) 2"
proof -
  have lo: "(- 1 :: real) < x_min example_material"
    and hi: "(5 :: real) > x_max example_material"
    by (simp_all add: example_domain)
  from C1_clamping [OF construct_example, of "- 1" 0 initial_state 0 initial_state 1] lo
  have a: "fst (computeValue example_material 0 (- 1) initial_state)
     = fst (computeValue example_material 0 (x_min example_material) initial_state) \<and>
   computeDerivative example_material (- 1) 1
     = computeDerivative example_material (x_min example_material) 1"
    by blast
  from C1_clamping [OF construct_example, of 5 0 initial_state 0 initial_state 2] hi
  have b: "fst (computeValue example_material 0 5 initial_state)
     = fst (computeValue example_material 0 (x_max example_material) initial_state) \<and>
   computeDerivative example_material 5 2
     = computeDerivative example_material (x_max example_material) 2"
    by blast
  from construct_example lo hi a b show ?thesis by (intro conjI) blast+
qed

text \<open>
  Claim C2. For every valid input \<open>(x, y)\<close>, with \<open>x\<close> strictly increasing, of the
  length of \<open>y\<close> and of length at least two, construction succeeds, whatever
  \<^verbatim>\<open>setData\<close> computes; and with the spline of the specification behind
  \<^verbatim>\<open>setData\<close>, for every solver that returns one second derivative for each
  knot (the invariant of section 3), the value at each knot \<open>x[i]\<close> is \<open>y[i]\<close>. Over the reals the equality is exact: at a knot the normalised
  positions are \<open>0\<close> and \<open>1\<close>, and the terms with the second derivatives vanish.
\<close>

theorem C2_interpolation:
  assumes len: "length (p_x p) = length (p_y p)"
    and two: "2 \<le> length (p_x p)"
    and inc: "sorted_wrt (<) (p_x p)"
    and i: "i < length (p_x p)"
    and y2: "length (solve (p_x p) (p_y p) (p_yp1 p) (p_ypn p)) = length (p_x p)"
  shows "(\<exists>m. construct setData p = Inr m) \<and>
         (\<exists>m. construct (spec_setData solve) p = Inr m \<and>
              fst (computeValue m t (p_x p ! i) s) = p_y p ! i)"
proof
  from len two inc show "\<exists>m. construct setData p = Inr m"
    by (simp add: construct_Inr_iff)
next
  define d where "d = \<lparr> sd_x = p_x p, sd_y = p_y p,
                         sd_y2 = solve (p_x p) (p_y p) (p_yp1 p) (p_ypn p),
                         boundary_left = p_yp1 p, boundary_right = p_ypn p \<rparr>"
  from len two inc obtain m where m: "construct (spec_setData solve) p = Inr m"
    by (simp add: construct_Inr_iff)
  then have fields: "x_min m = hd (p_x p)" "x_max m = last (p_x p)"
    "sample (spline m) = spec_value d"
    by (simp_all add: construct_Inr_iff spec_setData_def d_def Let_def)
  from knot_in_domain [OF inc i] fields
  have "fst (computeValue m t (p_x p ! i) s) = spec_value d (p_x p ! i)"
    by (simp add: computeValue_no_clamp)
  also have "\<dots> = p_y p ! i"
    using spec_value_at_knot [of d i] inc two i by (simp add: d_def)
  finally show "\<exists>m. construct (spec_setData solve) p = Inr m \<and>
              fst (computeValue m t (p_x p ! i) s) = p_y p ! i"
    using m by blast
qed

text \<open>
  The theorem at the five knots of the example, for its middle knot \<open>x[2] = 2\<close> with
  \<open>y[2] = 0\<close>.
\<close>

theorem C2_interpolation_witness:
  "length (p_x example_params) = length (p_y example_params) \<and>
   2 \<le> length (p_x example_params) \<and>
   sorted_wrt (<) (p_x example_params) \<and>
   (2 :: nat) < length (p_x example_params) \<and>
   length example_y2 = length (p_x example_params) \<and>
   (\<exists>m. construct example_setData example_params = Inr m \<and>
        fst (computeValue m 0 2 initial_state) = 0)"
proof -
  have h: "length (p_x example_params) = length (p_y example_params)"
    "2 \<le> length (p_x example_params)"
    "sorted_wrt (<) (p_x example_params)"
    "(2 :: nat) < length (p_x example_params)"
    "length example_y2 = length (p_x example_params)"
    by (simp_all add: example_params_fields example_y2_def)
  from h C2_interpolation [where p = example_params and i = 2
         and solve = "\<lambda>xv yv yp1 ypn. example_y2" and setData = example_setData
         and t = 0 and s = initial_state]
  have "\<exists>m. construct example_setData example_params = Inr m \<and>
        fst (computeValue m 0 2 initial_state) = 0"
    by (simp add: example_setData_def example_params_fields)
  with h show ?thesis by blast
qed

text \<open>
  Claim C3, as stated: an evaluation at an out-of-domain \<open>c\<close> signals no warning and
  changes no state, however many queries came before and whatever the time step is.
  \<^verbatim>\<open>computeValue\<close> does otherwise on the first out-of-domain query at time step
  \<open>0\<close>: it emits a warning and sets its static flag.
\<close>

theorem C3_counterexample:
  "snd (computeValue example_material 0 (- 1) \<lparr> warned = False, warnings = [] \<rparr>)
     = \<lparr> warned = True, warnings = [OutsideDomainWarning (- 1) 0 4] \<rparr>"
  by (simp add: computeValue_def example_material_def)

text \<open>
  Claim C3, amended. For every out-of-domain \<open>c\<close>, a value query leaves the state
  unchanged and emits nothing when the static flag is already set or the time step is
  not \<open>0\<close>; when the flag is not set and the time step is \<open>0\<close> it emits exactly one
  warning, naming \<open>c\<close> and the domain, and sets the flag; once the flag is set, no later
  value query (any coordinate, any time step) changes the state; and the value returned
  depends neither on the flag nor on the time step. No outcome of the query is an error.
  A derivative query is a function of the object, the coordinate and the order alone.
\<close>

theorem C3_amended:
  assumes "c < x_min m \<or> c > x_max m"
  shows "(warned s \<or> t \<noteq> 0 \<longrightarrow> snd (computeValue m t c s) = s) \<and>
         (\<not> warned s \<and> t = 0 \<longrightarrow>
            snd (computeValue m t c s)
              = \<lparr> warned = True,
                  warnings = warnings s @ [OutsideDomainWarning c (x_min m) (x_max m)] \<rparr>) \<and>
         (warned (snd (computeValue m t c s)) \<longrightarrow>
            snd (computeValue m t' c' (snd (computeValue m t c s))) = snd (computeValue m t c s)) \<and>
         fst (computeValue m t c s) = fst (computeValue m t' c s')"
proof (intro conjI impI)
  assume "warned s \<or> t \<noteq> 0"
  with assms show "snd (computeValue m t c s) = s"
    by (auto simp: computeValue_def Let_def)
next
  assume "\<not> warned s \<and> t = 0"
  with assms show "snd (computeValue m t c s)
              = \<lparr> warned = True,
                  warnings = warnings s @ [OutsideDomainWarning c (x_min m) (x_max m)] \<rparr>"
    by (simp add: computeValue_def Let_def)
next
  assume "warned (snd (computeValue m t c s))"
  then show "snd (computeValue m t' c' (snd (computeValue m t c s))) = snd (computeValue m t c s)"
    by (simp add: computeValue_def [of m t' c'] Let_def)
next
  show "fst (computeValue m t c s) = fst (computeValue m t' c s')"
    by (simp only: computeValue_clamped)
qed

text \<open>
  The amended theorem at the example: at time step \<open>1\<close> nothing changes; at time step
  \<open>0\<close> the first query at \<open>-1\<close> warns once; the next query, at \<open>5\<close>, finds the flag
  set and changes nothing.
\<close>

theorem C3_amended_witness:
  "((- 1 :: real) < x_min example_material \<or> - 1 > x_max example_material) \<and>
   snd (computeValue example_material 1 (- 1) initial_state) = initial_state \<and>
   snd (computeValue example_material 0 (- 1) initial_state)
     = \<lparr> warned = True, warnings = [OutsideDomainWarning (- 1) 0 4] \<rparr> \<and>
   snd (computeValue example_material 0 5 \<lparr> warned = True, warnings = [OutsideDomainWarning (- 1) 0 4] \<rparr>)
     = \<lparr> warned = True, warnings = [OutsideDomainWarning (- 1) 0 4] \<rparr>"
proof -
  have out: "(- 1 :: real) < x_min example_material \<or> - 1 > x_max example_material"
    by (simp add: example_domain)
  have out5: "(5 :: real) < x_min example_material \<or> 5 > x_max example_material"
    by (simp add: example_domain)
  from C3_amended [OF out, of initial_state 1 0 0 initial_state]
  have a: "snd (computeValue example_material 1 (- 1) initial_state) = initial_state"
    by simp
  from C3_amended [OF out, of initial_state 0 0 0 initial_state]
  have b: "snd (computeValue example_material 0 (- 1) initial_state)
     = \<lparr> warned = True, warnings = [OutsideDomainWarning (- 1) 0 4] \<rparr>"
    by (simp add: initial_state_def example_domain)
  from C3_amended [OF out5, of "\<lparr> warned = True, warnings = [OutsideDomainWarning (- 1) 0 4] \<rparr>" 0 0 0 initial_state]
  have c: "snd (computeValue example_material 0 5 \<lparr> warned = True, warnings = [OutsideDomainWarning (- 1) 0 4] \<rparr>)
     = \<lparr> warned = True, warnings = [OutsideDomainWarning (- 1) 0 4] \<rparr>"
    by simp
  from out a b c show ?thesis by (intro conjI)
qed

text \<open>
  Claim C4. For every object, every query coordinate \<open>c\<close> and every order \<open>n \<ge> 3\<close>, the
  derivative query of order \<open>n\<close> returns exactly \<open>0\<close>.
\<close>

theorem C4_higher_derivatives:
  assumes "3 \<le> n"
  shows "computeDerivative m c n = 0"
  using assms by (simp add: computeDerivative_def Let_def)

text \<open>
  The theorem at the example, for orders \<open>3\<close> and \<open>7\<close>, inside and outside the domain.
\<close>

theorem C4_higher_derivatives_witness:
  "(3 :: nat) \<le> 3 \<and> computeDerivative example_material (3 / 2) 3 = 0
   \<and> (3 :: nat) \<le> 7 \<and> computeDerivative example_material (- 1) 7 = 0"
  using C4_higher_derivatives [of 3 example_material "3 / 2"]
        C4_higher_derivatives [of 7 example_material "- 1"]
  by simp

text \<open>
  Claim C5 says that every input with \<open>x\<close> and \<open>y\<close> of different lengths fails with
  \<open>LengthMismatch\<close>. With an empty \<open>x\<close> and one ordinate the constructor does not get
  to its size check: the initialiser of \<open>x_min\<close> reads the front of the empty vector
  first. (For a non-empty \<open>x\<close> the claim holds: \<open>construct_length_mismatch\<close>.)
\<close>

theorem C5_empty_x_evaluation:
  "construct example_setData (example_params \<lparr> p_x := [], p_y := [1] \<rparr>)
     = Inl EmptyVectorAccess"
  by (simp add: construct_def)

text \<open>
  Claim C6, as stated: every input whose \<open>x\<close> has fewer than two elements fails with
  \<open>InsufficientPoints\<close>. The size check comes first: one abscissa with two ordinates
  fails with \<open>LengthMismatch\<close>.
\<close>

theorem C6_counterexample:
  "construct example_setData (example_params \<lparr> p_x := [1], p_y := [1, 2] \<rparr>) = Inl LengthMismatch"
  by (simp add: construct_def)

text \<open>
  Claim C6, amended. For every input with a non-empty \<open>x\<close> of fewer than two elements
  and a \<open>y\<close> of the same length, construction fails with \<open>InsufficientPoints\<close>.
\<close>

theorem C6_amended:
  assumes "p_x p \<noteq> []" and "length (p_x p) = length (p_y p)" and "length (p_x p) < 2"
  shows "construct setData p = Inl InsufficientPoints"
  using assms by (cases "p_x p") (simp_all add: construct_def)

text \<open>
  The amended theorem at one point, \<open>x = [1]\<close> and \<open>y = [1]\<close>.
\<close>

theorem C6_amended_witness:
  "p_x (example_params \<lparr> p_x := [1], p_y := [1] \<rparr>) \<noteq> [] \<and>
   length (p_x (example_params \<lparr> p_x := [1], p_y := [1] \<rparr>))
     = length (p_y (example_params \<lparr> p_x := [1], p_y := [1] \<rparr>)) \<and>
   length (p_x (example_params \<lparr> p_x := [1], p_y := [1] \<rparr>)) < 2 \<and>
   construct example_setData (example_params \<lparr> p_x := [1], p_y := [1] \<rparr>) = Inl InsufficientPoints"
  using C6_amended [of "example_params \<lparr> p_x := [1], p_y := [1] \<rparr>" example_setData]
  by simp

text \<open>
  Claim C7, as stated: every input whose \<open>x\<close> has an index \<open>i \<ge> 1\<close> with
  \<open>x[i] \<le> x[i-1]\<close> fails with \<open>NotStrictlyIncreasing\<close>. The size check comes first:
  \<open>x = [1, 3, 2]\<close> with two ordinates fails with \<open>LengthMismatch\<close>.
\<close>

theorem C7_counterexample:
  "construct example_setData (example_params \<lparr> p_x := [1, 3, 2], p_y := [1, 2] \<rparr>) = Inl LengthMismatch"
  by (simp add: construct_def)

text \<open>
  Claim C7, amended. For every input with \<open>x\<close> and \<open>y\<close> of the same length and an
  index \<open>i \<ge> 1\<close> with \<open>x[i] \<le> x[i-1]\<close> (a duplicate or an inversion), construction
  fails with \<open>NotStrictlyIncreasing\<close>: no object is built and nothing is reordered.
\<close>

theorem C7_amended:
  assumes len: "length (p_x p) = length (p_y p)"
    and i: "1 \<le> i" "i < length (p_x p)"
    and bad: "p_x p ! i \<le> p_x p ! (i - 1)"
  shows "construct setData p = Inl NotStrictlyIncreasing"
proof -
  from i have two: "2 \<le> length (p_x p)" by simp
  then obtain a as where cons: "p_x p = a # as" by (cases "p_x p") auto
  have "monotonicity_loop (p_x p) 1 \<noteq> None"
    using i bad by (auto simp: monotonicity_loop_None_iff intro!: exI [of _ i])
  then obtain e where e: "monotonicity_loop (p_x p) 1 = Some e" by auto
  then have "e = NotStrictlyIncreasing" by (rule monotonicity_loop_Some)
  with e cons len two show ?thesis
    by (simp add: construct_def)
qed

text \<open>
  The amended theorem at \<open>x = [1, 3, 2]\<close> with three ordinates, the inversion at index
  \<open>2\<close>.
\<close>

theorem C7_amended_witness:
  "length (p_x (example_params \<lparr> p_x := [1, 3, 2], p_y := [1, 2, 3] \<rparr>))
     = length (p_y (example_params \<lparr> p_x := [1, 3, 2], p_y := [1, 2, 3] \<rparr>)) \<and>
   (1 :: nat) \<le> 2 \<and> 2 < length (p_x (example_params \<lparr> p_x := [1, 3, 2], p_y := [1, 2, 3] \<rparr>)) \<and>
   p_x (example_params \<lparr> p_x := [1, 3, 2], p_y := [1, 2, 3] \<rparr>) ! 2
     \<le> p_x (example_params \<lparr> p_x := [1, 3, 2], p_y := [1, 2, 3] \<rparr>) ! (2 - 1) \<and>
   construct example_setData (example_params \<lparr> p_x := [1, 3, 2], p_y := [1, 2, 3] \<rparr>)
     = Inl NotStrictlyIncreasing"
  using C7_amended [of "example_params \<lparr> p_x := [1, 3, 2], p_y := [1, 2, 3] \<rparr>" 2 example_setData]
  by simp

text \<open>
  Claim C8. Every operation is deterministic. For a fixed object, the value returned
  for a coordinate is the same whatever the static flag and the time step are, and the
  same when the query is repeated in the state the first call left. Two constructions
  from the same \<open>x\<close>, \<open>y\<close> and boundary slopes fail with the same error or both
  succeed, with the same spline, knots and domain, and the two objects answer every
  value and derivative query alike.
\<close>

theorem C8_deterministic:
  assumes same: "p_x p = p_x p'" "p_y p = p_y p'" "p_yp1 p = p_yp1 p'" "p_ypn p = p_ypn p'"
  shows "fst (computeValue m0 t c s) = fst (computeValue m0 t' c s') \<and>
         fst (computeValue m0 t c (snd (computeValue m0 t c s))) = fst (computeValue m0 t c s) \<and>
         (construct setData p = Inl e \<longrightarrow> construct setData p' = Inl e) \<and>
         (construct setData p = Inr m \<longrightarrow>
            (\<exists>m'. construct setData p' = Inr m' \<and>
                  spline m' = spline m \<and> x_values m' = x_values m \<and> y_values m' = y_values m \<and>
                  x_min m' = x_min m \<and> x_max m' = x_max m \<and>
                  fst (computeValue m' t' c s') = fst (computeValue m t c s) \<and>
                  computeDerivative m' c n = computeDerivative m c n))"
proof (intro conjI impI)
  show "fst (computeValue m0 t c s) = fst (computeValue m0 t' c s')"
    by (simp only: computeValue_clamped)
  show "fst (computeValue m0 t c (snd (computeValue m0 t c s))) = fst (computeValue m0 t c s)"
    by (simp only: computeValue_clamped)
next
  assume "construct setData p = Inl e"
  with same show "construct setData p' = Inl e"
    by (simp add: construct_Inl_iff)
next
  assume m: "construct setData p = Inr m"
  with same obtain m' where m': "construct setData p' = Inr m'"
    by (simp add: construct_Inr_iff)
  from m m' same have eq: "spline m' = spline m" "x_values m' = x_values m"
    "y_values m' = y_values m" "x_min m' = x_min m" "x_max m' = x_max m"
    by (simp_all add: construct_Inr_iff)
  then have "fst (computeValue m' t' c s') = fst (computeValue m t c s)"
    and "computeDerivative m' c n = computeDerivative m c n"
    by (simp_all only: computeValue_clamped computeDerivative_clamped)
  with m' eq show "\<exists>m'. construct setData p' = Inr m' \<and>
                  spline m' = spline m \<and> x_values m' = x_values m \<and> y_values m' = y_values m \<and>
                  x_min m' = x_min m \<and> x_max m' = x_max m \<and>
                  fst (computeValue m' t' c s') = fst (computeValue m t c s) \<and>
                  computeDerivative m' c n = computeDerivative m c n"
    by blast
qed

text \<open>
  The theorem at the example and at a second parameter set with the same data, another
  property name and another derivative order.
\<close>

theorem C8_deterministic_witness:
  "p_x example_params = p_x (example_params \<lparr> p_property_name := ''G'', p_derivative_order := 1 \<rparr>) \<and>
   p_y example_params = p_y (example_params \<lparr> p_property_name := ''G'', p_derivative_order := 1 \<rparr>) \<and>
   p_yp1 example_params = p_yp1 (example_params \<lparr> p_property_name := ''G'', p_derivative_order := 1 \<rparr>) \<and>
   p_ypn example_params = p_ypn (example_params \<lparr> p_property_name := ''G'', p_derivative_order := 1 \<rparr>) \<and>
   construct example_setData example_params = Inr example_material \<and>
   (\<exists>m'. construct example_setData (example_params \<lparr> p_property_name := ''G'', p_derivative_order := 1 \<rparr>) = Inr m' \<and>
         spline m' = spline example_material \<and>
         fst (computeValue m' 5 (- 1) \<lparr> warned = True, warnings = [] \<rparr>)
           = fst (computeValue example_material 0 (- 1) initial_state) \<and>
         computeDerivative m' (- 1) 1 = computeDerivative example_material (- 1) 1)"
proof -
  let ?p' = "example_params \<lparr> p_property_name := ''G'', p_derivative_order := 1 \<rparr>"
  have same: "p_x example_params = p_x ?p'" "p_y example_params = p_y ?p'"
    "p_yp1 example_params = p_yp1 ?p'" "p_ypn example_params = p_ypn ?p'"
    by simp_all
  from C8_deterministic [OF same, of example_material 0 "- 1" initial_state 5
         "\<lparr> warned = True, warnings = [] \<rparr>" example_setData LengthMismatch example_material 1]
       construct_example
  have "\<exists>m'. construct example_setData ?p' = Inr m' \<and>
         spline m' = spline example_material \<and>
         fst (computeValue m' 5 (- 1) \<lparr> warned = True, warnings = [] \<rparr>)
           = fst (computeValue example_material 0 (- 1) initial_state) \<and>
         computeDerivative m' (- 1) 1 = computeDerivative example_material (- 1) 1"
    by blast
  with same construct_example show ?thesis by (intro conjI)
qed

text \<open>
  Claim C9. The constructor reads the first and the last element of \<open>x\<close> before any
  validation runs: for an empty \<open>x\<close> the construction ends in that read, whatever
  \<open>y\<close> is, and never reaches a check; so \<open>InsufficientPoints\<close> is the outcome exactly
  when \<open>x\<close> (and with it \<open>y\<close>) has one element.
\<close>

theorem C9_bounds_read_first:
  "(p_x p = [] \<longrightarrow> construct setData p = Inl EmptyVectorAccess) \<and>
   (construct setData p = Inl InsufficientPoints \<longleftrightarrow> length (p_x p) = 1 \<and> length (p_y p) = 1)"
proof
  show "p_x p = [] \<longrightarrow> construct setData p = Inl EmptyVectorAccess"
    by (simp add: construct_def)
next
  show "construct setData p = Inl InsufficientPoints \<longleftrightarrow> length (p_x p) = 1 \<and> length (p_y p) = 1"
  proof -
    have "p_x p \<noteq> [] \<and> length (p_x p) < 2 \<longleftrightarrow> length (p_x p) = 1"
      by (cases "p_x p") auto
    then show ?thesis by (auto simp: construct_Inl_iff)
  qed
qed

text \<open>
  The theorem at an empty input and at a single point.
\<close>

theorem C9_bounds_read_first_witness:
  "p_x (example_params \<lparr> p_x := [], p_y := [] \<rparr>) = [] \<and>
   construct example_setData (example_params \<lparr> p_x := [], p_y := [] \<rparr>) = Inl EmptyVectorAccess \<and>
   length (p_x (example_params \<lparr> p_x := [7], p_y := [8] \<rparr>)) = 1 \<and>
   length (p_y (example_params \<lparr> p_x := [7], p_y := [8] \<rparr>)) = 1 \<and>
   construct example_setData (example_params \<lparr> p_x := [7], p_y := [8] \<rparr>) = Inl InsufficientPoints"
  using C9_bounds_read_first [of "example_params \<lparr> p_x := [], p_y := [] \<rparr>" example_setData]
        C9_bounds_read_first [of "example_params \<lparr> p_x := [7], p_y := [8] \<rparr>" example_setData]
  by simp

text \<open>
  Claim C10. For every object and every query coordinate \<open>c\<close>, inside or outside the
  domain, the derivative query of order \<open>0\<close> returns what the value query returns.
\<close>

theorem C10_order_zero:
  "computeDerivative m c 0 = fst (computeValue m t c s)"
  by (simp only: computeValue_clamped computeDerivative_clamped) simp

text \<open>
  The theorem at the example, outside and inside the domain.
\<close>

theorem C10_order_zero_witness:
  "computeDerivative example_material (- 1) 0 = fst (computeValue example_material 0 (- 1) initial_state)
   \<and> computeDerivative example_material (5 / 2) 0 = fst (computeValue example_material 3 (5 / 2) initial_state)"
  using C10_order_zero [of example_material "- 1" 0 initial_state]
        C10_order_zero [of example_material "5 / 2" 3 initial_state]
  by simp

end
